theory Spec2Isabelle
  imports Main
begin

section \<open>Python strings and dictionaries\<close>

text \<open>
  A Python \<open>str\<close> is a \<open>string\<close> (one \<open>char\<close> per code point, code points below 256).
  A dictionary with string keys and string values is a map; every field the pipeline
  stores in an article (\<open>url\<close>, \<open>title\<close>, \<open>html\<close>, \<open>source\<close>, \<open>content\<close>, \<open>error\<close>,
  \<open>summary\<close>) is a string. A function that can raise returns a sum: \<open>Inl msg\<close> is an
  exception \<open>e\<close> with \<open>str(e) = msg\<close>, \<open>Inr v\<close> the value returned.
\<close>

type_synonym dict = "string \<rightharpoonup> string"

type_synonym article = dict

text \<open>\<open>d.get(k)\<close> used as a condition: the key is present and its value is not empty.\<close>

definition truthy_get :: "dict \<Rightarrow> string \<Rightarrow> bool" where
  "truthy_get d k = (case d k of None \<Rightarrow> False | Some v \<Rightarrow> v \<noteq> [])"

text \<open>\<open>str(KeyError(k))\<close>: the key in single quotes.\<close>

definition key_error :: "string \<Rightarrow> string" where
  "key_error k = [CHR 0x27] @ k @ [CHR 0x27]"

definition startswith :: "string \<Rightarrow> string \<Rightarrow> bool" where
  "startswith s p = (take (length p) s = p)"

definition endswith :: "string \<Rightarrow> string \<Rightarrow> bool" where
  "endswith s p = startswith (rev s) (rev p)"

text \<open>\<open>sub in s\<close> on strings.\<close>

fun contains :: "string \<Rightarrow> string \<Rightarrow> bool" where
  "contains sub [] = (sub = [])"
| "contains sub (c # cs) = (startswith (c # cs) sub \<or> contains sub cs)"

text \<open>
  \<open>s.split(sep)[0]\<close> is the text before the first occurrence of \<open>sep\<close> (all of \<open>s\<close> when
  there is none). \<open>s.split(sep)[1]\<close> is the text between the first and the second
  occurrence, and raises IndexError when \<open>sep\<close> does not occur. Both are used with the
  non-empty separators \<open>//\<close> and \<open>/\<close> only.
\<close>

fun before_first :: "string \<Rightarrow> string \<Rightarrow> string" where
  "before_first sep [] = []"
| "before_first sep (c # cs) = (if startswith (c # cs) sep then [] else c # before_first sep cs)"

fun after_first :: "string \<Rightarrow> string \<Rightarrow> string option" where
  "after_first sep [] = None"
| "after_first sep (c # cs) =
     (if startswith (c # cs) sep then Some (drop (length sep) (c # cs)) else after_first sep cs)"

definition split_0 :: "string \<Rightarrow> string \<Rightarrow> string" where
  "split_0 sep s = before_first sep s"

definition split_1 :: "string \<Rightarrow> string \<Rightarrow> string + string" where
  "split_1 sep s =
     (case after_first sep s of
        None \<Rightarrow> Inl ''list index out of range''
      | Some r \<Rightarrow> Inr (before_first sep r))"

text \<open>\<open>s.replace('www.', '')\<close>: every occurrence, left to right.\<close>

function replace_www :: "string \<Rightarrow> string" where
  "replace_www [] = []"
| "replace_www (c # cs) =
     (if startswith (c # cs) ''www.'' then replace_www (drop 4 (c # cs))
      else c # replace_www cs)"
  by pat_completeness auto
termination
  by (relation "measure length") auto

text \<open>
  \<open>str.isspace\<close> on one character, for code points below 256: tab, line feed, vertical
  tab, form feed, carriage return, the separators 0x1C to 0x1F, space, 0x85 and 0xA0.
\<close>

definition is_space :: "char \<Rightarrow> bool" where
  "is_space c = (of_char c \<in> {9, 10, 11, 12, 13, 28, 29, 30, 31, 32, 133, 160 :: nat})"

definition strip :: "string \<Rightarrow> string" where
  "strip s = rev (dropWhile is_space (rev (dropWhile is_space s)))"

text \<open>\<open>s.split()\<close>: the maximal runs of characters that are not whitespace.\<close>

fun split_ws :: "string \<Rightarrow> string \<Rightarrow> string list" where
  "split_ws cur [] = (if cur = [] then [] else [rev cur])"
| "split_ws cur (c # cs) =
     (if is_space c then (if cur = [] then split_ws [] cs else rev cur # split_ws [] cs)
      else split_ws (c # cur) cs)"

fun join :: "string \<Rightarrow> string list \<Rightarrow> string" where
  "join sep [] = []"
| "join sep [x] = x"
| "join sep (x # y # ys) = x @ sep @ join sep (y # ys)"

text \<open>\<open>xs[:m]\<close> for a Python integer \<open>m\<close>: a negative \<open>m\<close> counts from the end.\<close>

definition slice_to :: "int \<Rightarrow> 'a list \<Rightarrow> 'a list" where
  "slice_to m xs = (if 0 \<le> m then take (nat m) xs else take (length xs - nat (- m)) xs)"

section \<open>Parsed pages\<close>

text \<open>
  What the pipeline reads from a \<open>BeautifulSoup\<close> object:
  \<^item> \<open>anchors\<close>: the \<open>href\<close> of every \<open>a\<close> element that has one (\<open>find_all('a', href=True)\<close>),
    in document order;
  \<^item> \<open>h1\<close>: \<open>get_text()\<close> of the first \<open>h1\<close> element (\<open>find('h1')\<close>), if there is one;
  \<^item> \<open>og_title\<close>: the attributes of the first \<open>meta\<close> element whose \<open>property\<close> is
    \<open>og:title\<close>, if there is one;
  \<^item> \<open>paragraphs\<close>: \<open>get_text()\<close> of every \<open>p\<close> element left once the \<open>script\<close>, \<open>style\<close>,
    \<open>nav\<close>, \<open>header\<close> and \<open>footer\<close> elements are decomposed.
\<close>

record soup =
  anchors :: "string list"
  h1 :: "string option"
  og_title :: "dict option"
  paragraphs :: "string list"

subsection \<open>\<open>extract_article_links\<close> (news_extraction_async.py, lines 34 to 49)\<close>

text \<open>Lines 40 to 44: a \<open>href\<close> that starts with \<open>/\<close> is appended to the base URL.\<close>

definition resolve_href :: "string \<Rightarrow> string \<Rightarrow> string" where
  "resolve_href base_url href =
     (if startswith href ''/'' then
        (if endswith base_url ''/'' then base_url @ drop 1 href else base_url @ href)
      else href)"

text \<open>
  Line 46, \<open>href.startswith('http') and '/article' in href or '/news/' in href or
  '/story/' in href\<close>: Python's \<open>and\<close> binds tighter than \<open>or\<close>.
\<close>

definition likely_article :: "string \<Rightarrow> bool" where
  "likely_article href =
     ((startswith href ''http'' \<and> contains ''/article'' href)
      \<or> contains ''/news/'' href \<or> contains ''/story/'' href)"

definition add_link :: "string \<Rightarrow> string list \<Rightarrow> string \<Rightarrow> string list" where
  "add_link base_url links a =
     (let href = resolve_href base_url a in
      if likely_article href then (if href \<in> set links then links else links @ [href])
      else links)"

definition extract_article_links :: "soup \<Rightarrow> string \<Rightarrow> string list" where
  "extract_article_links sp base_url = foldl (add_link base_url) [] (anchors sp)"

subsection \<open>\<open>extract_title\<close> (news_extraction_async.py, lines 51 to 57)\<close>

text \<open>
  A \<open>Tag\<close> is true even when it has no contents, so the first \<open>h1\<close> is used whenever the
  page has one; \<open>title_meta.get('content', '')\<close> is the empty string when the attribute
  is missing.
\<close>

definition extract_title :: "soup \<Rightarrow> string option" where
  "extract_title sp =
     (case h1 sp of
        Some t \<Rightarrow> Some (strip t)
      | None \<Rightarrow>
          (case og_title sp of
             Some attrs \<Rightarrow> Some (strip (case attrs ''content'' of None \<Rightarrow> [] | Some v \<Rightarrow> v))
           | None \<Rightarrow> None))"

text \<open>
  \<open>title_found\<close>: the test \<open>if title\<close> of line 80 on what \<open>extract_title\<close> returns.
  \<open>title_text\<close>: the title stored in the item when the test passes.
\<close>

definition title_found :: "soup \<Rightarrow> bool" where
  "title_found sp = (case extract_title sp of None \<Rightarrow> False | Some t \<Rightarrow> t \<noteq> [])"

definition title_text :: "soup \<Rightarrow> string" where
  "title_text sp = (case extract_title sp of None \<Rightarrow> [] | Some t \<Rightarrow> t)"

text \<open>
  The specification's wording of a discoverable title, "a non-empty first h1 heading
  text, else a non-empty og:title meta content": either text, stripped, is not empty.
\<close>

definition title_discoverable :: "soup \<Rightarrow> bool" where
  "title_discoverable sp =
     ((case h1 sp of None \<Rightarrow> False | Some t \<Rightarrow> strip t \<noteq> [])
      \<or> (case og_title sp of
            None \<Rightarrow> False
          | Some attrs \<Rightarrow> (case attrs ''content'' of None \<Rightarrow> False | Some v \<Rightarrow> strip v \<noteq> [])))"

section \<open>The outside world\<close>

text \<open>
  Every HTTP request of a run is identified by the place that issues it and the number of
  the attempt: the page of the \<open>j\<close>-th source, the \<open>k\<close>-th candidate link of the \<open>j\<close>-th
  source, or the fresh fetch for the \<open>i\<close>-th item of an extraction batch. An attempt
  answers with status 200 and a text, with another status, or with a fault (an exception
  of \<open>session.get\<close> or of \<open>response.text()\<close>). Request headers do not enter the model.
\<close>

datatype site = SourcePage nat | ArticlePage nat nat | ContentPage nat

datatype response = Status200 string | StatusOther | Fault

text \<open>
  The chat-completion request of \<open>get_llm_summary\<close> (lines 65 to 69): \<open>Raised msg\<close> is any
  exception of the \<open>try\<close> block with \<open>str(e) = msg\<close>; \<open>Reply s\<close> is the text found at
  \<open>choices[0].message.content\<close>, the empty string when a level is missing.
\<close>

datatype llm_outcome = Raised string | Reply string

text \<open>
  An entry of \<open>sources\<close>: a string, a dictionary, or any other value (given by its \<open>str()\<close>
  text).
\<close>

datatype source = SrcStr string | SrcDict dict | SrcOther string

record env =
  http_get :: "site \<Rightarrow> nat \<Rightarrow> string \<Rightarrow> response"
  parse_html :: "string \<Rightarrow> soup"
  api_key :: "string option"
  default_model :: string
  llm_post :: "nat \<Rightarrow> string \<Rightarrow> string \<Rightarrow> llm_outcome"
  send_email_summary :: "article list \<Rightarrow> string + bool"
  max_articles_per_source :: int
  str_of_dict :: "dict \<Rightarrow> string"

subsection \<open>\<open>fetch_with_retry\<close> (news_extraction_async.py, lines 22 to 32)\<close>

fun attempts :: "(nat \<Rightarrow> response) \<Rightarrow> nat \<Rightarrow> nat \<Rightarrow> string option" where
  "attempts get attempt 0 = None"
| "attempts get attempt (Suc n) =
     (case get attempt of
        Status200 text \<Rightarrow> Some text
      | StatusOther \<Rightarrow> attempts get (Suc attempt) n
      | Fault \<Rightarrow> attempts get (Suc attempt) n)"

definition fetch_with_retry :: "env \<Rightarrow> site \<Rightarrow> string \<Rightarrow> nat \<Rightarrow> string option" where
  "fetch_with_retry e place url max_retries = attempts (\<lambda>a. http_get e place a url) 1 max_retries"

subsection \<open>\<open>fetch_articles\<close> (news_extraction_async.py, lines 59 to 92)\<close>

text \<open>
  Lines 73 to 88, the body of the loop over the candidate links: the items the \<open>k\<close>-th
  link of the \<open>j\<close>-th source appends to \<open>articles\<close> (one or none).
\<close>

definition article_item :: "env \<Rightarrow> nat \<Rightarrow> nat \<Rightarrow> string \<Rightarrow> string \<Rightarrow> article list" where
  "article_item e j k source_name link =
     (case fetch_with_retry e (ArticlePage j k) link 3 of
        None \<Rightarrow> []
      | Some article_html \<Rightarrow>
          if article_html = [] then []
          else (case extract_title (parse_html e article_html) of
                  None \<Rightarrow> []
                | Some title \<Rightarrow>
                    if title = [] then []
                    else [[''url'' \<mapsto> link, ''title'' \<mapsto> title,
                           ''html'' \<mapsto> article_html, ''source'' \<mapsto> source_name]]))"

fun link_items :: "env \<Rightarrow> nat \<Rightarrow> string \<Rightarrow> nat \<Rightarrow> string list \<Rightarrow> article list" where
  "link_items e j source_name k [] = []"
| "link_items e j source_name k (link # links) =
     article_item e j k source_name link @ link_items e j source_name (Suc k) links"

text \<open>
  Lines 65 to 72: the candidate links of the \<open>j\<close>-th source, none when its page cannot be
  fetched.
\<close>

definition candidate_links :: "env \<Rightarrow> int \<Rightarrow> nat \<Rightarrow> string \<Rightarrow> string list" where
  "candidate_links e max_articles j source_url =
     (case fetch_with_retry e (SourcePage j) source_url 3 of
        None \<Rightarrow> []
      | Some html \<Rightarrow>
          if html = [] then []
          else slice_to max_articles (extract_article_links (parse_html e html) source_url))"

text \<open>Lines 64 to 90, the \<open>try\<close> block for one source.\<close>

definition source_items :: "env \<Rightarrow> int \<Rightarrow> nat \<Rightarrow> string \<Rightarrow> string \<Rightarrow> article list" where
  "source_items e max_articles j source_url source_name =
     link_items e j source_name 0 (candidate_links e max_articles j source_url)"

text \<open>Line 63: IndexError for a source URL without \<open>//\<close>.\<close>

definition source_name_of :: "string \<Rightarrow> string + string" where
  "source_name_of source_url =
     (case split_1 ''//'' source_url of
        Inl err \<Rightarrow> Inl err
      | Inr host \<Rightarrow> Inr (replace_www (split_0 ''/'' host)))"

text \<open>
  The loop over the sources. Line 63 is outside the \<open>try\<close>: its exception leaves
  \<open>fetch_articles\<close>, whatever was collected before.
\<close>

fun fetch_articles_from :: "env \<Rightarrow> int \<Rightarrow> nat \<Rightarrow> string list \<Rightarrow> string + article list" where
  "fetch_articles_from e max_articles j [] = Inr []"
| "fetch_articles_from e max_articles j (source_url # rest) =
     (case source_name_of source_url of
        Inl err \<Rightarrow> Inl err
      | Inr source_name \<Rightarrow>
          (case fetch_articles_from e max_articles (Suc j) rest of
             Inl err \<Rightarrow> Inl err
           | Inr others \<Rightarrow>
               Inr (source_items e max_articles j source_url source_name @ others)))"

definition fetch_articles :: "env \<Rightarrow> string list \<Rightarrow> int \<Rightarrow> string + article list" where
  "fetch_articles e source_list max_articles = fetch_articles_from e max_articles 0 source_list"

subsection \<open>\<open>batch_process_sources\<close> (news_extraction_async.py, lines 94 to 116)\<close>

fun source_urls :: "dict list \<Rightarrow> string + string list" where
  "source_urls [] = Inr []"
| "source_urls (src # rest) =
     (case src ''url'' of
        None \<Rightarrow> Inl (key_error ''url'')
      | Some u \<Rightarrow> (case source_urls rest of Inl err \<Rightarrow> Inl err | Inr us \<Rightarrow> Inr (u # us)))"

text \<open>Lines 110 to 113: the first source whose URL contains the article's label names it.\<close>

fun update_source_name :: "dict list \<Rightarrow> article \<Rightarrow> string + article" where
  "update_source_name [] a = Inr a"
| "update_source_name (src # rest) a =
     (case a ''source'' of
        None \<Rightarrow> Inl (key_error ''source'')
      | Some label \<Rightarrow>
          (case src ''url'' of
             None \<Rightarrow> Inl (key_error ''url'')
           | Some u \<Rightarrow>
               if contains label u then
                 (case src ''name'' of
                    None \<Rightarrow> Inl (key_error ''name'')
                  | Some n \<Rightarrow> Inr (a(''source'' \<mapsto> n)))
               else update_source_name rest a))"

fun update_source_names :: "dict list \<Rightarrow> article list \<Rightarrow> string + article list" where
  "update_source_names srcs [] = Inr []"
| "update_source_names srcs (a # rest) =
     (case update_source_name srcs a of
        Inl err \<Rightarrow> Inl err
      | Inr a' \<Rightarrow>
          (case update_source_names srcs rest of
             Inl err \<Rightarrow> Inl err
           | Inr rest' \<Rightarrow> Inr (a' # rest')))"

definition batch_process_sources :: "env \<Rightarrow> dict list \<Rightarrow> int \<Rightarrow> string + article list" where
  "batch_process_sources e srcs max_per_source =
     (case source_urls srcs of
        Inl err \<Rightarrow> Inl err
      | Inr urls \<Rightarrow>
          (case fetch_articles e urls max_per_source of
             Inl err \<Rightarrow> Inl err
           | Inr arts \<Rightarrow> update_source_names srcs arts))"

subsection \<open>\<open>extract_article_content\<close> (news_extraction_async.py, lines 118 to 165)\<close>

text \<open>
  Lines 132 to 140, the markup the item is read from: \<open>Inl msg\<close> when \<open>article['url']\<close>
  raises, \<open>Inr None\<close> when the fresh fetch gives nothing, \<open>Inr (Some html)\<close> otherwise.
\<close>

definition obtain_html :: "env \<Rightarrow> nat \<Rightarrow> article \<Rightarrow> string + string option" where
  "obtain_html e i article =
     (if \<not> truthy_get article ''html'' then
        (case article ''url'' of
           None \<Rightarrow> Inl (key_error ''url'')
         | Some url \<Rightarrow>
             (case fetch_with_retry e (ContentPage i) url 3 of
                None \<Rightarrow> Inr None
              | Some html \<Rightarrow> if html = [] then Inr None else Inr (Some html)))
      else
        (case article ''html'' of
           None \<Rightarrow> Inl (key_error ''html'')
         | Some html \<Rightarrow> Inr (Some html)))"

text \<open>Lines 151 and 154.\<close>

definition clean_text :: "string list \<Rightarrow> string" where
  "clean_text ps =
     join '' '' (split_ws [] (join '' '' (filter (\<lambda>t. t \<noteq> []) (map strip ps))))"

text \<open>Lines 143 to 154: the cleaned, concatenated paragraph text of a page.\<close>

definition cleaned :: "env \<Rightarrow> string \<Rightarrow> string" where
  "cleaned e html = clean_text (paragraphs (parse_html e html))"

text \<open>Lines 156 to 160.\<close>

definition extract_from :: "env \<Rightarrow> article \<Rightarrow> string \<Rightarrow> article" where
  "extract_from e result html =
     (let content = cleaned e html in
      if content = [] \<or> length content < 50 then
        result(''error'' \<mapsto> ''Insufficient content extracted'')
      else result(''content'' \<mapsto> content))"

text \<open>
  The \<open>try\<close> block, lines 132 to 160: \<open>Inl msg\<close> when a statement raises, \<open>Inr\<close> the
  dictionary the block leaves in \<open>result\<close>.
\<close>

definition extract_body :: "env \<Rightarrow> nat \<Rightarrow> article \<Rightarrow> string + article" where
  "extract_body e i article =
     (let result = article in
      case obtain_html e i article of
        Inl msg \<Rightarrow> Inl msg
      | Inr None \<Rightarrow> Inr (result(''error'' \<mapsto> ''Failed to fetch article content''))
      | Inr (Some html) \<Rightarrow> Inr (extract_from e result html))"

text \<open>The handler of lines 162 and 163 turns a raised exception into the item's error.\<close>

definition extract_article_content :: "env \<Rightarrow> nat \<Rightarrow> article \<Rightarrow> article" where
  "extract_article_content e i article =
     (case extract_body e i article of
        Inl msg \<Rightarrow> article(''error'' \<mapsto> ''Error extracting content: '' @ msg)
      | Inr result \<Rightarrow> result)"

subsection \<open>\<open>batch_process_articles\<close> (news_extraction_async.py, lines 167 to 191)\<close>

text \<open>
  The outcome of one task under \<open>asyncio.gather(*tasks, return_exceptions=True)\<close>: \<open>Inl\<close> an
  exception that left the coroutine, \<open>Inr\<close> its return value. The only statements of
  \<open>extract_article_content\<close> outside its \<open>try\<close> are \<open>article.copy()\<close> and \<open>return result\<close>.
\<close>

definition extract_task :: "env \<Rightarrow> nat \<Rightarrow> article \<Rightarrow> string + article" where
  "extract_task e i article = Inr (extract_article_content e i article)"

fun gather :: "(nat \<Rightarrow> 'a \<Rightarrow> string + 'b) \<Rightarrow> nat \<Rightarrow> 'a list \<Rightarrow> (string + 'b) list" where
  "gather task i [] = []"
| "gather task i (x # xs) = task i x # gather task (Suc i) xs"

text \<open>Lines 183 to 188.\<close>

fun keep_results :: "(string + 'b) list \<Rightarrow> 'b list" where
  "keep_results [] = []"
| "keep_results (Inl exn # rest) = keep_results rest"
| "keep_results (Inr result # rest) = result # keep_results rest"

definition batch_process_articles :: "env \<Rightarrow> article list \<Rightarrow> article list" where
  "batch_process_articles e arts = keep_results (gather (extract_task e) 0 arts)"

section \<open>The summariser\<close>

subsection \<open>\<open>get_llm_summary\<close> (llm_integrations.py, lines 20 to 79)\<close>

definition nl :: string where
  "nl = [CHR 0x0A]"

text \<open>The f-string of lines 39 to 48.\<close>

definition prompt_of :: "string \<Rightarrow> string \<Rightarrow> string \<Rightarrow> string" where
  "prompt_of title source_label content =
     nl @ ''    Article Title: '' @ title @ nl
     @ ''    Source: '' @ source_label @ nl
     @ ''    '' @ nl
     @ ''    Content:'' @ nl
     @ ''    '' @ content @ nl
     @ ''    '' @ nl
     @ ''    Please provide a concise summary of this article in 3-5 sentences. '' @ nl
     @ ''    Extract the most important information, key facts, and main points.'' @ nl
     @ ''    ''"

text \<open>Lines 29 to 48: the prompt for an article whose \<open>content\<close> is \<open>c\<close>.\<close>

definition summary_prompt :: "article \<Rightarrow> string \<Rightarrow> string" where
  "summary_prompt article c =
     (let title = (case article ''title'' of None \<Rightarrow> ''Untitled Article'' | Some t \<Rightarrow> t);
          source_label = (case article ''source'' of None \<Rightarrow> ''Unknown Source'' | Some s \<Rightarrow> s);
          max_chars = 4000;
          content = (if length c > max_chars then take max_chars c @ ''...'' else c)
      in prompt_of title source_label content)"

text \<open>
  The workflow calls \<open>get_llm_summary(article)\<close> without a model, so the request names
  \<open>DEFAULT_MODEL\<close>. The number \<open>i\<close> identifies the call (the position of the article in
  the list being summarised).
\<close>

definition get_llm_summary :: "env \<Rightarrow> nat \<Rightarrow> article \<Rightarrow> string" where
  "get_llm_summary e i article =
     (if (case api_key e of None \<Rightarrow> True | Some k \<Rightarrow> k = []) then
        ''Summary not available - OpenRouter API key not configured.''
      else
        (case article ''content'' of
           None \<Rightarrow> ''No content available for summarization.''
         | Some c \<Rightarrow>
             if c = [] then ''No content available for summarization.''
             else
               (case llm_post e i (default_model e) (summary_prompt article c) of
                  Raised msg \<Rightarrow> ''Summary generation failed: '' @ msg
                | Reply summary \<Rightarrow>
                    if summary = [] then ''Summary generation failed - empty response.''
                    else summary)))"

section \<open>The workflow\<close>

subsection \<open>\<open>NewsWorkflowState\<close> (news_workflow.py, lines 15 to 20)\<close>

record state =
  sources :: "source list"
  articles :: "article list"
  summaries :: "article list"
  email_sent :: bool
  error :: string

subsection \<open>\<open>fetch_articles_async\<close> (news_workflow.py, lines 23 to 62)\<close>

text \<open>
  The loop of lines 33 to 47 ends in one of three ways: with the normalised list, at the
  first entry that is neither a string nor a dictionary with \<open>url\<close> (line 46), or with the
  IndexError of line 36 for a string without \<open>//\<close>.
\<close>

datatype normalized = Sources "dict list" | Invalid source | Failed string

fun normalize_sources :: "source list \<Rightarrow> dict list \<Rightarrow> normalized" where
  "normalize_sources [] sources_list = Sources sources_list"
| "normalize_sources (SrcStr s # rest) sources_list =
     (case split_1 ''//'' s of
        Inl err \<Rightarrow> Failed err
      | Inr host \<Rightarrow>
          (let domain = split_0 ''/'' host;
               domain = (if startswith domain ''www.'' then drop 4 domain else domain)
           in normalize_sources rest (sources_list @ [[''name'' \<mapsto> domain, ''url'' \<mapsto> s]])))"
| "normalize_sources (SrcDict d # rest) sources_list =
     (if d ''url'' \<noteq> None then normalize_sources rest (sources_list @ [d])
      else Invalid (SrcDict d))"
| "normalize_sources (SrcOther v # rest) sources_list = Invalid (SrcOther v)"

text \<open>\<open>f"{source}"\<close> for an entry that line 46 reports.\<close>

fun source_text :: "env \<Rightarrow> source \<Rightarrow> string" where
  "source_text e (SrcStr s) = s"
| "source_text e (SrcDict d) = str_of_dict e d"
| "source_text e (SrcOther v) = v"

definition fetch_articles_async :: "env \<Rightarrow> state \<Rightarrow> state" where
  "fetch_articles_async e s =
     (if sources s = [] then s\<lparr>error := ''No sources provided.''\<rparr>
      else
        (case normalize_sources (sources s) [] of
           Invalid src \<Rightarrow> s\<lparr>error := ''Invalid source format: '' @ source_text e src\<rparr>
         | Failed msg \<Rightarrow> s\<lparr>error := ''Error fetching articles: '' @ msg\<rparr>
         | Sources sources_list \<Rightarrow>
             (case batch_process_sources e sources_list (max_articles_per_source e) of
                Inl msg \<Rightarrow> s\<lparr>error := ''Error fetching articles: '' @ msg\<rparr>
              | Inr arts \<Rightarrow>
                  if arts = [] then
                    s\<lparr>articles := arts,
                      error := ''No articles found. Check source configurations.''\<rparr>
                  else s\<lparr>articles := arts\<rparr>)))"

subsection \<open>\<open>extract_content_async\<close> (news_workflow.py, lines 64 to 88)\<close>

text \<open>
  \<open>batch_process_articles\<close> returns a list for every input, so the handler of lines 84 to
  86 has nothing to catch.
\<close>

definition extract_content_async :: "env \<Rightarrow> state \<Rightarrow> state" where
  "extract_content_async e s =
     (if articles s = [] then
        (if error s = [] then s\<lparr>error := ''No articles to process''\<rparr> else s)
      else s\<lparr>articles := batch_process_articles e (articles s)\<rparr>)"

subsection \<open>\<open>summarize_articles_async\<close> (news_workflow.py, lines 90 to 115)\<close>

text \<open>
  The loop of lines 98 to 106 returns the articles as the assignment of line 105 leaves
  them (the dictionaries of \<open>state["articles"]\<close> are updated in place) and the list
  \<open>summaries\<close>. \<open>get_llm_summary\<close> returns a string for every article, so the handler of
  lines 111 to 113 has nothing to catch.
\<close>

fun summarize_from :: "env \<Rightarrow> nat \<Rightarrow> article list \<Rightarrow> article list \<times> article list" where
  "summarize_from e i [] = ([], [])"
| "summarize_from e i (a # rest) =
     (let (rest', sums) = summarize_from e (Suc i) rest in
      if truthy_get a ''error'' then (a # rest', sums)
      else (let a' = a(''summary'' \<mapsto> get_llm_summary e i a) in (a' # rest', a' # sums)))"

definition summarize_articles_async :: "env \<Rightarrow> state \<Rightarrow> state" where
  "summarize_articles_async e s =
     (if articles s = [] then s
      else (let (arts, sums) = summarize_from e 0 (articles s) in
            s\<lparr>articles := arts, summaries := sums\<rparr>))"

subsection \<open>\<open>send_notifications\<close> (news_workflow.py, lines 117 to 131)\<close>

text \<open>
  The notifier \<open>send_email_summary\<close> belongs to the environment. The function of
  notifications.py answers with a boolean (its own handler returns \<open>False\<close>); the model
  also admits a notifier that raises, for the handler of lines 127 to 129. Beside the
  new state, \<open>send_notifications\<close> returns the argument of every call it makes to the
  notifier (line 124 is the only call of the workflow).
\<close>

definition send_notifications :: "env \<Rightarrow> state \<Rightarrow> state \<times> article list list" where
  "send_notifications e s =
     (if summaries s = [] then (s, [])
      else
        (case send_email_summary e (summaries s) of
           Inl msg \<Rightarrow> (s\<lparr>error := ''Error sending notifications: '' @ msg\<rparr>, [summaries s])
         | Inr sent \<Rightarrow> (s\<lparr>email_sent := sent\<rparr>, [summaries s])))"

subsection \<open>\<open>should_send_email\<close> and the graph (news_workflow.py, lines 134 to 169)\<close>

definition should_send_email :: "state \<Rightarrow> string" where
  "should_send_email s = (if summaries s \<noteq> [] then ''has_summaries'' else ''no_summaries'')"

datatype node = Fetch_articles | Extract_content | Summarize_articles | Send_notifications | END

text \<open>The mapping of the conditional edge, lines 161 to 164.\<close>

definition branch :: "string \<rightharpoonup> node" where
  "branch = [''has_summaries'' \<mapsto> Send_notifications, ''no_summaries'' \<mapsto> END]"

fun next_node :: "node \<Rightarrow> state \<Rightarrow> node" where
  "next_node Fetch_articles s = Extract_content"
| "next_node Extract_content s = Summarize_articles"
| "next_node Summarize_articles s =
     (case branch (should_send_email s) of Some n \<Rightarrow> n | None \<Rightarrow> END)"
| "next_node Send_notifications s = END"
| "next_node END s = END"

text \<open>The function of each node, with the notifier calls it makes.\<close>

fun node_function :: "env \<Rightarrow> node \<Rightarrow> state \<Rightarrow> state \<times> article list list" where
  "node_function e Fetch_articles s = (fetch_articles_async e s, [])"
| "node_function e Extract_content s = (extract_content_async e s, [])"
| "node_function e Summarize_articles s = (summarize_articles_async e s, [])"
| "node_function e Send_notifications s = send_notifications e s"
| "node_function e END s = (s, [])"

text \<open>
  A run in progress: the state, the nodes entered so far and the arguments of the
  notifier calls made so far.
\<close>

record run =
  current :: state
  visited :: "node list"
  notifier_calls :: "article list list"

definition run_node :: "env \<Rightarrow> node \<Rightarrow> run \<Rightarrow> run" where
  "run_node e n r =
     (let (s, calls) = node_function e n (current r) in
      \<lparr>current = s, visited = visited r @ [n], notifier_calls = notifier_calls r @ calls\<rparr>)"

fun rank :: "node \<Rightarrow> nat" where
  "rank Fetch_articles = 4"
| "rank Extract_content = 3"
| "rank Summarize_articles = 2"
| "rank Send_notifications = 1"
| "rank END = 0"

function exec :: "env \<Rightarrow> node \<Rightarrow> run \<Rightarrow> run" where
  "exec e n r =
     (if n = END then r
      else (let r' = run_node e n r in exec e (next_node n (current r')) r'))"
  by pat_completeness auto
termination
proof (relation "measure (\<lambda>(e, n, r). rank n)")
  show "wf (measure (\<lambda>(e, n, r). rank n))"
    by simp
next
  fix e :: env and n :: node and r r' :: run
  assume "n \<noteq> END"
  then have "rank (next_node n (current r')) < rank n"
    by (cases n) (simp_all add: branch_def should_send_email_def)
  then show "((e, next_node n (current r'), r'), (e, n, r)) \<in> measure (\<lambda>(e, n, r). rank n)"
    by simp
qed

declare exec.simps [simp del]

text \<open>\<open>workflow.ainvoke(initial_state)\<close>: the edge of line 153 enters \<open>fetch_articles\<close>.\<close>

definition ainvoke :: "env \<Rightarrow> state \<Rightarrow> run" where
  "ainvoke e s = exec e Fetch_articles \<lparr>current = s, visited = [], notifier_calls = []\<rparr>"

subsection \<open>The initial state of \<open>main_async\<close> (main.py, lines 18 to 24)\<close>

definition initial_state :: "source list \<Rightarrow> state" where
  "initial_state news_sources =
     \<lparr>sources = news_sources, articles = [], summaries = [], email_sent = False, error = []\<rparr>"

subsection \<open>Kinds of source entries\<close>



text \<open>The state at the end of the Summarize stage of a run started in \<open>s\<close>.\<close>

definition after_summarize :: "env \<Rightarrow> state \<Rightarrow> state" where
  "after_summarize e s =
     summarize_articles_async e (extract_content_async e (fetch_articles_async e s))"

subsection \<open>Two concrete environments\<close>

text \<open>
  \<open>offline\<close>: every request fails, every page parses to nothing, no API key is configured
  and the mail transport refuses.
\<close>

definition blank_page :: soup where
  "blank_page = \<lparr>anchors = [], h1 = None, og_title = None, paragraphs = []\<rparr>"

definition offline :: env where
  "offline =
     \<lparr>http_get = (\<lambda>place attempt url. Fault),
      parse_html = (\<lambda>html. blank_page),
      api_key = None,
      default_model = ''deepseek/deepseek-chat-v3-0324:free'',
      llm_post = (\<lambda>i model prompt. Raised ''connection refused''),
      send_email_summary = (\<lambda>sums. Inr False),
      max_articles_per_source = 2,
      str_of_dict = (\<lambda>d. ''{}'')\<rparr>"

text \<open>
  \<open>newsroom\<close>: one site. Its front page links to a story (twice), to a page without
  article marker and to a second story; the first story answers at the second attempt;
  the second story has an empty \<open>h1\<close> and an \<open>og:title\<close>. The pages \<open>fifty\<close> and \<open>short\<close>
  hold 50 and 49 characters of text.
\<close>

definition front_page :: soup where
  "front_page =
     \<lparr>anchors = [''/article/1'', ''/about'', ''/article/1'', ''/story/2''],
      h1 = None, og_title = None, paragraphs = []\<rparr>"

definition story_page :: soup where
  "story_page =
     \<lparr>anchors = [], h1 = Some '' Budget vote '', og_title = None,
      paragraphs =
        [''The council met on Monday. '', ''  '', ''It passed the budget by a wide margin.'']\<rparr>"

definition headless_page :: soup where
  "headless_page =
     \<lparr>anchors = [], h1 = Some [], og_title = Some [''content'' \<mapsto> ''Harbour reopens''],
      paragraphs = [''The harbour reopened to traffic after three weeks of repairs.'']\<rparr>"

definition fifty_page :: soup where
  "fifty_page =
     \<lparr>anchors = [], h1 = Some ''Fifty'', og_title = None,
      paragraphs = [''The council passed the budget'', '' on Monday  afternoon. '']\<rparr>"

definition short_page :: soup where
  "short_page =
     \<lparr>anchors = [], h1 = Some ''Short'', og_title = None,
      paragraphs = [''The council passed the budget'', '' on Monday  afternoon '']\<rparr>"

definition newsroom :: env where
  "newsroom =
     \<lparr>http_get = (\<lambda>place attempt url.
         if url = ''https://www.example.com'' then Status200 ''front''
         else if url = ''https://www.example.com/article/1'' then
           (if attempt = 1 then StatusOther else Status200 ''story'')
         else if url = ''https://www.example.com/story/2'' then Status200 ''headless''
         else Fault),
      parse_html = (\<lambda>html.
         if html = ''front'' then front_page
         else if html = ''story'' then story_page
         else if html = ''headless'' then headless_page
         else if html = ''fifty'' then fifty_page
         else if html = ''short'' then short_page
         else blank_page),
      api_key = Some ''key'',
      default_model = ''deepseek/deepseek-chat-v3-0324:free'',
      llm_post = (\<lambda>i model prompt. Reply ''The council passed the budget.''),
      send_email_summary = (\<lambda>sums. Inr True),
      max_articles_per_source = 3,
      str_of_dict = (\<lambda>d. ''{}'')\<rparr>"



definition example_sources :: "source list" where
  "example_sources = [SrcStr ''https://www.example.com'']"

section \<open>Properties\<close>

subsection \<open>Article links\<close>

text \<open>
  The links returned are the resolved anchors that pass the test of line 46, each at its
  first occurrence: the list has no duplicates, and every link in it carries one of the
  three markers.
\<close>

lemma extract_article_links_first_occurrences:
  "extract_article_links sp base_url =
     rev (remdups (rev (filter likely_article (map (resolve_href base_url) (anchors sp)))))"
proof -
  have "foldl (add_link base_url) [] as =
      rev (remdups (rev (filter likely_article (map (resolve_href base_url) as))))" for as
    by (induction as rule: rev_induct) (simp_all add: add_link_def Let_def)
  then show ?thesis
    by (simp add: extract_article_links_def)
qed

lemma extract_article_links_distinct: "distinct (extract_article_links sp base_url)"
  by (simp add: extract_article_links_first_occurrences)

lemma extract_article_links_marked:
  "l \<in> set (extract_article_links sp base_url) \<Longrightarrow>
   contains ''/article'' l \<or> contains ''/news/'' l \<or> contains ''/story/'' l"
  by (auto simp add: extract_article_links_first_occurrences likely_article_def)

text \<open>
  C5. Not every link returned starts with \<open>http\<close>: a relative \<open>href\<close> without a leading
  slash is not resolved, and the test of line 46 accepts it for its \<open>/news/\<close> alone. The
  link returned for the anchor \<open>../news/today.html\<close> is that very text.
\<close>

theorem extract_article_links_relative_news:
  "extract_article_links
     \<lparr>anchors = [''../news/today.html''], h1 = None, og_title = None, paragraphs = []\<rparr>
     ''https://example.com'' = [''../news/today.html'']
   \<and> \<not> startswith ''../news/today.html'' ''http''"
  by (simp add: extract_article_links_def add_link_def resolve_href_def likely_article_def
      startswith_def)

subsection \<open>Running the graph\<close>

lemma exec_END: "exec e END r = r"
  by (simp add: exec.simps)

lemma exec_step:
  "n \<noteq> END \<Longrightarrow> exec e n r = exec e (next_node n (current (run_node e n r))) (run_node e n r)"
  by (subst exec.simps) (simp add: Let_def)

lemma send_notifications_calls:
  "snd (send_notifications e s) = (if summaries s = [] then [] else [summaries s])"
  by (simp add: send_notifications_def split: sum.splits)

lemma run_node_eq:
  "run_node e n r =
     \<lparr>current = fst (node_function e n (current r)),
      visited = visited r @ [n],
      notifier_calls = notifier_calls r @ snd (node_function e n (current r))\<rparr>"
  by (cases "node_function e n (current r)") (simp add: run_node_def)

lemma ainvoke_run:
  "ainvoke e s =
     (if summaries (after_summarize e s) = [] then
        \<lparr>current = after_summarize e s,
         visited = [Fetch_articles, Extract_content, Summarize_articles],
         notifier_calls = []\<rparr>
      else
        \<lparr>current = fst (send_notifications e (after_summarize e s)),
         visited = [Fetch_articles, Extract_content, Summarize_articles, Send_notifications],
         notifier_calls = [summaries (after_summarize e s)]\<rparr>)"
  by (simp add: ainvoke_def exec_step exec_END run_node_eq after_summarize_def
      branch_def should_send_email_def send_notifications_calls)

lemma extract_no_articles:
  "articles s = [] \<Longrightarrow> error s \<noteq> [] \<Longrightarrow> extract_content_async e s = s"
  by (simp add: extract_content_async_def)

lemma summarize_no_articles:
  "articles s = [] \<Longrightarrow> summarize_articles_async e s = s"
  by (simp add: summarize_articles_async_def)

lemma after_summarize_idle:
  assumes "articles (fetch_articles_async e s) = []" and "error (fetch_articles_async e s) \<noteq> []"
  shows "after_summarize e s = fetch_articles_async e s"
  unfolding after_summarize_def
  by (simp only: extract_no_articles [OF assms] summarize_no_articles [OF assms(1)])

lemma fetch_keeps_summaries: "summaries (fetch_articles_async e s) = summaries s"
  by (simp add: fetch_articles_async_def split: normalized.splits sum.splits)

lemma extract_keeps_error: "error s \<noteq> [] \<Longrightarrow> error (extract_content_async e s) = error s"
  by (simp add: extract_content_async_def)

lemma summarize_keeps_error: "error (summarize_articles_async e s) = error s"
  by (cases "summarize_from e 0 (articles s)") (simp add: summarize_articles_async_def)

lemma notify_keeps_error: "error s \<noteq> [] \<Longrightarrow> error (fst (send_notifications e s)) \<noteq> []"
  by (simp add: send_notifications_def split: sum.splits)

text \<open>
  C1. The Notify stage is entered if and only if \<open>summaries\<close> is not empty at the end of
  the Summarize stage. With empty \<open>summaries\<close> the run ends after Summarize, in the state
  Summarize left, and the notifier is never called. With a non-empty \<open>summaries\<close> the
  notifier is called exactly once, with the whole list \<open>summaries\<close>, and its answer is
  what the run records.
\<close>

theorem notify_iff_summaries:
  "(Send_notifications \<in> set (visited (ainvoke e s))) = (summaries (after_summarize e s) \<noteq> [])
   \<and> (summaries (after_summarize e s) = [] \<longrightarrow>
        notifier_calls (ainvoke e s) = []
        \<and> visited (ainvoke e s) = [Fetch_articles, Extract_content, Summarize_articles]
        \<and> current (ainvoke e s) = after_summarize e s)
   \<and> (summaries (after_summarize e s) \<noteq> [] \<longrightarrow>
        notifier_calls (ainvoke e s) = [summaries (after_summarize e s)]
        \<and> length (notifier_calls (ainvoke e s)) = 1
        \<and> visited (ainvoke e s) =
            [Fetch_articles, Extract_content, Summarize_articles, Send_notifications]
        \<and> current (ainvoke e s) =
            (case send_email_summary e (summaries (after_summarize e s)) of
               Inl msg \<Rightarrow> (after_summarize e s)\<lparr>error := ''Error sending notifications: '' @ msg\<rparr>
             | Inr sent \<Rightarrow> (after_summarize e s)\<lparr>email_sent := sent\<rparr>))"
  by (simp add: ainvoke_run send_notifications_def split: sum.splits)

text \<open>
  The newsroom run ends the Summarize stage with one summary and calls the notifier with
  it; the offline run ends it with none and calls nothing.
\<close>

theorem notify_iff_summaries_witness:
  "length (summaries (after_summarize newsroom (initial_state example_sources))) = 1
   \<and> notifier_calls (ainvoke newsroom (initial_state example_sources)) =
       [summaries (after_summarize newsroom (initial_state example_sources))]
   \<and> summaries (after_summarize offline (initial_state example_sources)) = []
   \<and> notifier_calls (ainvoke offline (initial_state example_sources)) = []"
proof -
  have a: "length (summaries (after_summarize newsroom (initial_state example_sources))) = 1"
    by code_simp
  have b: "summaries (after_summarize offline (initial_state example_sources)) = []"
    by code_simp
  from a have c: "summaries (after_summarize newsroom (initial_state example_sources)) \<noteq> []"
    by auto
  show ?thesis
    using notify_iff_summaries [of newsroom "initial_state example_sources"]
      notify_iff_summaries [of offline "initial_state example_sources"] a b c
    by simp
qed

text \<open>
  C4. A run started by \<open>main_async\<close> with an empty list of sources ends with empty
  \<open>summaries\<close>, \<open>email_sent\<close> false and the non-empty error \<open>No sources provided.\<close>; the
  Notify stage is not entered.
\<close>

theorem zero_sources_run:
  "summaries (current (ainvoke e (initial_state []))) = []
   \<and> \<not> email_sent (current (ainvoke e (initial_state [])))
   \<and> error (current (ainvoke e (initial_state []))) = ''No sources provided.''
   \<and> error (current (ainvoke e (initial_state []))) \<noteq> []
   \<and> visited (ainvoke e (initial_state [])) = [Fetch_articles, Extract_content, Summarize_articles]
   \<and> notifier_calls (ainvoke e (initial_state [])) = []"
proof -
  let ?fin = "(initial_state [])\<lparr>error := ''No sources provided.''\<rparr>"
  have f: "fetch_articles_async e (initial_state []) = ?fin"
    by (simp add: fetch_articles_async_def initial_state_def)
  have "after_summarize e (initial_state []) = ?fin"
    using after_summarize_idle [of e "initial_state []"] unfolding f
    by (simp add: initial_state_def)
  then show ?thesis
    by (simp add: ainvoke_run initial_state_def)
qed

text \<open>
  C3. A non-empty \<open>error\<close> is never emptied by a later stage: ExtractContent and
  Summarize leave it as it is, Notify leaves it non-empty, and so it is non-empty at the
  end of the run. When the fetch stage ends with no articles and the error
  \<open>No articles found. Check source configurations.\<close>, ExtractContent and Summarize are
  still entered and return the state unchanged, so the error reaches the end of the run.
\<close>

theorem error_survives_later_stages:
  "(error s \<noteq> [] \<longrightarrow>
      error (extract_content_async e s) = error s
      \<and> error (summarize_articles_async e s) = error s
      \<and> error (fst (send_notifications e s)) \<noteq> [])
   \<and> (error (fetch_articles_async e s) \<noteq> [] \<longrightarrow> error (current (ainvoke e s)) \<noteq> [])
   \<and> (articles (fetch_articles_async e s) = []
       \<and> error (fetch_articles_async e s) = ''No articles found. Check source configurations.'' \<longrightarrow>
         extract_content_async e (fetch_articles_async e s) = fetch_articles_async e s
         \<and> summarize_articles_async e (fetch_articles_async e s) = fetch_articles_async e s
         \<and> take 3 (visited (ainvoke e s)) = [Fetch_articles, Extract_content, Summarize_articles]
         \<and> error (current (ainvoke e s)) \<noteq> []
         \<and> (summaries s = [] \<longrightarrow> current (ainvoke e s) = fetch_articles_async e s))"
proof (intro conjI impI)
  assume "error s \<noteq> []"
  then show "error (extract_content_async e s) = error s"
    and "error (summarize_articles_async e s) = error s"
    and "error (fst (send_notifications e s)) \<noteq> []"
    by (simp_all add: extract_keeps_error summarize_keeps_error notify_keeps_error)
next
  assume "error (fetch_articles_async e s) \<noteq> []"
  then have "error (after_summarize e s) \<noteq> []"
    by (simp add: after_summarize_def summarize_keeps_error extract_keeps_error)
  then show "error (current (ainvoke e s)) \<noteq> []"
    by (simp add: ainvoke_run notify_keeps_error)
next
  assume h: "articles (fetch_articles_async e s) = []
    \<and> error (fetch_articles_async e s) = ''No articles found. Check source configurations.''"
  then have a: "articles (fetch_articles_async e s) = []"
    and b: "error (fetch_articles_async e s) \<noteq> []"
    by simp_all
  show "extract_content_async e (fetch_articles_async e s) = fetch_articles_async e s"
    by (rule extract_no_articles [OF a b])
  show "summarize_articles_async e (fetch_articles_async e s) = fetch_articles_async e s"
    by (rule summarize_no_articles [OF a])
  show "take 3 (visited (ainvoke e s)) = [Fetch_articles, Extract_content, Summarize_articles]"
    by (simp add: ainvoke_run)
  have i: "after_summarize e s = fetch_articles_async e s"
    by (rule after_summarize_idle [OF a b])
  show "error (current (ainvoke e s)) \<noteq> []"
    using b by (simp add: ainvoke_run i notify_keeps_error)
  show "current (ainvoke e s) = fetch_articles_async e s" if "summaries s = []"
    using that by (simp add: ainvoke_run i fetch_keeps_summaries)
qed

text \<open>
  Offline, the one source of \<open>example_sources\<close> yields no article: the fetch stage sets the
  error, and the run ends in the state the fetch stage left.
\<close>

theorem error_survives_later_stages_witness:
  "error (fetch_articles_async offline (initial_state example_sources)) =
     ''No articles found. Check source configurations.''
   \<and> articles (fetch_articles_async offline (initial_state example_sources)) = []
   \<and> summaries (initial_state example_sources) = []
   \<and> current (ainvoke offline (initial_state example_sources)) =
       fetch_articles_async offline (initial_state example_sources)
   \<and> error (extract_content_async offline
        (fetch_articles_async offline (initial_state example_sources))) =
       ''No articles found. Check source configurations.''
   \<and> error (current (ainvoke offline (initial_state example_sources))) \<noteq> []"
proof -
  have a: "error (fetch_articles_async offline (initial_state example_sources)) =
     ''No articles found. Check source configurations.''"
    by code_simp
  have b: "articles (fetch_articles_async offline (initial_state example_sources)) = []"
    by code_simp
  have c: "summaries (initial_state example_sources) = []"
    by (simp add: initial_state_def)
  have d: "error (fetch_articles_async offline (initial_state example_sources)) \<noteq> []"
    by (simp add: a)
  show ?thesis
    using error_survives_later_stages [of "initial_state example_sources" offline]
      error_survives_later_stages
        [of "fetch_articles_async offline (initial_state example_sources)" offline]
      a b c d
    by simp
qed

subsection \<open>Malformed sources\<close>







subsection \<open>Content extraction\<close>

lemma extract_with_html:
  "obtain_html e i a = Inr (Some html) \<Longrightarrow> extract_article_content e i a = extract_from e a html"
  by (simp add: extract_article_content_def extract_body_def)

lemma extract_outcomes:
  "(\<exists>c. c \<noteq> [] \<and> extract_article_content e i a = a(''content'' \<mapsto> c))
   \<or> (\<exists>m. m \<noteq> [] \<and> extract_article_content e i a = a(''error'' \<mapsto> m))"
  by (auto simp add: extract_article_content_def extract_body_def extract_from_def Let_def
      split: sum.splits option.splits)

text \<open>
  C6. For an item whose markup is at hand (its own \<open>html\<close>, or a fresh fetch that
  succeeded): when the cleaned paragraph text has exactly 50 characters the extractor
  returns the item with \<open>content\<close> set to that text and adds no error; when it has at
  most 49 characters (none included) the extractor returns the item with the error
  \<open>Insufficient content extracted\<close> and sets no \<open>content\<close>.
\<close>

theorem content_threshold:
  assumes "obtain_html e i article = Inr (Some html)"
  shows "(length (cleaned e html) = 50 \<longrightarrow>
            extract_article_content e i article = article(''content'' \<mapsto> cleaned e html)
            \<and> extract_article_content e i article ''content'' = Some (cleaned e html)
            \<and> extract_article_content e i article ''error'' = article ''error'')
         \<and> (length (cleaned e html) \<le> 49 \<longrightarrow>
            extract_article_content e i article =
              article(''error'' \<mapsto> ''Insufficient content extracted'')
            \<and> extract_article_content e i article ''error'' =
                Some ''Insufficient content extracted''
            \<and> extract_article_content e i article ''content'' = article ''content'')"
  by (auto simp add: extract_with_html [OF assms] extract_from_def Let_def)

text \<open>The pages \<open>fifty\<close> and \<open>short\<close> of the newsroom, on either side of the threshold.\<close>

theorem content_threshold_witness:
  "length (cleaned newsroom ''fifty'') = 50
   \<and> extract_article_content newsroom 0 [''url'' \<mapsto> ''u'', ''html'' \<mapsto> ''fifty''] ''content'' =
       Some ''The council passed the budget on Monday afternoon.''
   \<and> extract_article_content newsroom 0 [''url'' \<mapsto> ''u'', ''html'' \<mapsto> ''fifty''] ''error'' = None
   \<and> length (cleaned newsroom ''short'') \<le> 49
   \<and> extract_article_content newsroom 0 [''url'' \<mapsto> ''u'', ''html'' \<mapsto> ''short''] ''error'' =
       Some ''Insufficient content extracted''
   \<and> extract_article_content newsroom 0 [''url'' \<mapsto> ''u'', ''html'' \<mapsto> ''short''] ''content'' = None"
proof -
  have a: "obtain_html newsroom 0 [''url'' \<mapsto> ''u'', ''html'' \<mapsto> ''fifty''] = Inr (Some ''fifty'')"
    by (simp add: obtain_html_def truthy_get_def)
  have b: "obtain_html newsroom 0 [''url'' \<mapsto> ''u'', ''html'' \<mapsto> ''short''] = Inr (Some ''short'')"
    by (simp add: obtain_html_def truthy_get_def)
  have c: "cleaned newsroom ''fifty'' = ''The council passed the budget on Monday afternoon.''"
    by code_simp
  have d: "length (cleaned newsroom ''short'') \<le> 49"
    by code_simp
  show ?thesis
    using content_threshold [OF a] content_threshold [OF b] c d
    by simp
qed

text \<open>
  C10. For an item without an \<open>error\<close> field, \<open>extract_article_content\<close> returns the item
  with every field other than \<open>content\<close> and \<open>error\<close> unchanged (\<open>url\<close>, \<open>title\<close>, \<open>html\<close> and
  \<open>source\<close> among them) and with exactly one assignment made: either \<open>content\<close> is set or
  \<open>error\<close> is set, never both and never neither. For an item that carries no \<open>content\<close>
  either, exactly one of the two fields is present in the result.
\<close>

theorem extract_article_content_outcome:
  assumes "article ''error'' = None"
  shows "(\<forall>k. k \<noteq> ''content'' \<and> k \<noteq> ''error'' \<longrightarrow>
            extract_article_content e i article k = article k)
         \<and> extract_article_content e i article ''url'' = article ''url''
         \<and> extract_article_content e i article ''title'' = article ''title''
         \<and> extract_article_content e i article ''html'' = article ''html''
         \<and> extract_article_content e i article ''source'' = article ''source''
         \<and> ((\<exists>c. extract_article_content e i article = article(''content'' \<mapsto> c))
              \<noteq> (\<exists>m. extract_article_content e i article = article(''error'' \<mapsto> m)))
         \<and> (article ''content'' = None \<longrightarrow>
              (extract_article_content e i article ''content'' = None)
                \<noteq> (extract_article_content e i article ''error'' = None))"
proof -
  let ?r = "extract_article_content e i article"
  consider (ok) c where "?r = article(''content'' \<mapsto> c)"
    | (failed) m where "?r = article(''error'' \<mapsto> m)"
    using extract_outcomes [of e i article] by blast
  then show ?thesis
  proof cases
    case ok
    have "?r ''error'' = None"
      using assms by (simp add: ok)
    then have "\<not> (\<exists>m. ?r = article(''error'' \<mapsto> m))"
      by (metis fun_upd_same option.distinct(1))
    moreover have "\<exists>c. ?r = article(''content'' \<mapsto> c)"
      using ok by blast
    ultimately show ?thesis
      using assms by (simp add: ok)
  next
    case failed
    have "\<not> (\<exists>c. ?r = article(''content'' \<mapsto> c))"
    proof
      assume "\<exists>c. ?r = article(''content'' \<mapsto> c)"
      then obtain c where "?r = article(''content'' \<mapsto> c)" by blast
      then have "?r ''error'' = None" using assms by simp
      then show False by (simp add: failed)
    qed
    moreover have "\<exists>m. ?r = article(''error'' \<mapsto> m)"
      using failed by blast
    ultimately show ?thesis
      by (simp add: failed)
  qed
qed

text \<open>An item with the page \<open>fifty\<close>: \<open>content\<close> is added, \<open>url\<close> and \<open>html\<close> stay.\<close>

theorem extract_article_content_outcome_witness:
  "[''url'' \<mapsto> ''u'', ''html'' \<mapsto> ''fifty''] ''error'' = None
   \<and> [''url'' \<mapsto> ''u'', ''html'' \<mapsto> ''fifty''] ''content'' = None
   \<and> extract_article_content newsroom 0 [''url'' \<mapsto> ''u'', ''html'' \<mapsto> ''fifty''] ''url'' = Some ''u''
   \<and> extract_article_content newsroom 0 [''url'' \<mapsto> ''u'', ''html'' \<mapsto> ''fifty''] ''html'' = Some ''fifty''
   \<and> extract_article_content newsroom 0 [''url'' \<mapsto> ''u'', ''html'' \<mapsto> ''fifty''] ''summary'' = None
   \<and> ((extract_article_content newsroom 0 [''url'' \<mapsto> ''u'', ''html'' \<mapsto> ''fifty''] ''content'' = None)
        \<noteq> (extract_article_content newsroom 0 [''url'' \<mapsto> ''u'', ''html'' \<mapsto> ''fifty''] ''error'' = None))"
proof -
  have a: "[''url'' \<mapsto> ''u'', ''html'' \<mapsto> ''fifty''] ''error'' = None"
    by simp
  have b: "[''url'' \<mapsto> ''u'', ''html'' \<mapsto> ''fifty''] ''content'' = None"
    by simp
  have c: "''summary'' \<noteq> ''content'' \<and> ''summary'' \<noteq> ''error''"
    by simp
  show ?thesis
    using extract_article_content_outcome
        [of "[''url'' \<mapsto> ''u'', ''html'' \<mapsto> ''fifty'']" newsroom 0] a b c
    by simp
qed

subsection \<open>Batch extraction\<close>

lemma batch_as_map:
  "keep_results (gather (extract_task e) i arts) =
     map (\<lambda>(k, a). extract_article_content e k a) (enumerate i arts)"
  by (induction arts arbitrary: i) (simp_all add: extract_task_def)

lemma keep_results_append: "keep_results (xs @ ys) = keep_results xs @ keep_results ys"
  by (induction xs rule: keep_results.induct) simp_all

text \<open>
  C9, as the code has it. An exception raised while an item is processed is caught inside
  \<open>extract_article_content\<close> and recorded in the \<open>error\<close> field of that item; the batch is
  not aborted and no item is dropped: \<open>batch_process_articles\<close> returns one result for
  every input item, in input order, each the result of \<open>extract_article_content\<close> on that
  item alone. The loop of lines 183 to 188 would drop an outcome that is an exception
  and keep the others in order.
\<close>

theorem batch_keeps_every_item:
  "length (batch_process_articles e arts) = length arts
   \<and> (\<forall>i < length arts.
         batch_process_articles e arts ! i = extract_article_content e i (arts ! i))
   \<and> (\<forall>i < length arts. \<forall>msg. extract_body e i (arts ! i) = Inl msg \<longrightarrow>
         batch_process_articles e arts ! i =
           (arts ! i)(''error'' \<mapsto> ''Error extracting content: '' @ msg))
   \<and> keep_results (outcomes @ Inl exn # outcomes') =
       keep_results outcomes @ (keep_results outcomes' :: article list)"
proof -
  have n: "batch_process_articles e arts ! i = extract_article_content e i (arts ! i)"
    if "i < length arts" for i
    using that by (simp add: batch_process_articles_def batch_as_map nth_enumerate_eq)
  have "length (batch_process_articles e arts) = length arts"
    by (simp add: batch_process_articles_def batch_as_map)
  moreover have "\<forall>i < length arts. \<forall>msg. extract_body e i (arts ! i) = Inl msg \<longrightarrow>
         batch_process_articles e arts ! i =
           (arts ! i)(''error'' \<mapsto> ''Error extracting content: '' @ msg)"
    by (simp add: n extract_article_content_def)
  ultimately show ?thesis
    by (simp add: n keep_results_append)
qed

text \<open>
  A batch of two: an item without \<open>url\<close> and \<open>html\<close>, for which \<open>article['url']\<close> raises, and
  an item with markup.
\<close>

theorem batch_keeps_every_item_witness:
  "extract_body newsroom 0 [''title'' \<mapsto> ''Untitled''] = Inl (key_error ''url'')
   \<and> length (batch_process_articles newsroom
        [[''title'' \<mapsto> ''Untitled''], [''url'' \<mapsto> ''u'', ''html'' \<mapsto> ''fifty'']]) = 2
   \<and> batch_process_articles newsroom
        [[''title'' \<mapsto> ''Untitled''], [''url'' \<mapsto> ''u'', ''html'' \<mapsto> ''fifty'']] ! 0 =
       [''title'' \<mapsto> ''Untitled'', ''error'' \<mapsto> ''Error extracting content: '' @ key_error ''url'']
   \<and> batch_process_articles newsroom
        [[''title'' \<mapsto> ''Untitled''], [''url'' \<mapsto> ''u'', ''html'' \<mapsto> ''fifty'']] ! 1 =
       extract_article_content newsroom 1 [''url'' \<mapsto> ''u'', ''html'' \<mapsto> ''fifty'']"
proof -
  let ?arts = "[[''title'' \<mapsto> ''Untitled''], [''url'' \<mapsto> ''u'', ''html'' \<mapsto> ''fifty'']]"
  have a: "extract_body newsroom 0 [''title'' \<mapsto> ''Untitled''] = Inl (key_error ''url'')"
    by (simp add: extract_body_def obtain_html_def truthy_get_def)
  have b: "(0::nat) < length ?arts" and c: "(1::nat) < length ?arts"
    by simp_all
  note t = batch_keeps_every_item [of newsroom ?arts "[]" "''timeout''" "[]"]
  note len = t [THEN conjunct1]
  note at_1 = t [THEN conjunct2, THEN conjunct1, rule_format, OF c]
  note at_0 = t [THEN conjunct2, THEN conjunct2, THEN conjunct1, rule_format, OF b,
      of "key_error ''url''"]
  show ?thesis
    using len at_0 at_1 a by simp
qed

text \<open>
  The item for which the exception was raised is in the returned list, with its title
  and the error of the handler.
\<close>

theorem batch_fault_counterexample:
  "extract_body offline 0 [''title'' \<mapsto> ''Untitled''] = Inl (key_error ''url'')
   \<and> map (\<lambda>a. (a ''title'', a ''error'')) (batch_process_articles offline [[''title'' \<mapsto> ''Untitled'']]) =
       [(Some ''Untitled'', Some (''Error extracting content: '' @ key_error ''url''))]"
  by (simp add: batch_process_articles_def extract_task_def extract_article_content_def
      extract_body_def obtain_html_def truthy_get_def)

subsection \<open>Titles\<close>

lemma link_items_append:
  "link_items e j name k (xs @ ys) =
     link_items e j name k xs @ link_items e j name (k + length xs) ys"
  by (induction xs arbitrary: k) simp_all

lemma article_item_fetched:
  "fetch_with_retry e (ArticlePage j k) link 3 = Some html \<Longrightarrow> html \<noteq> [] \<Longrightarrow>
   article_item e j k name link =
     (if title_found (parse_html e html) then
        [[''url'' \<mapsto> link, ''title'' \<mapsto> title_text (parse_html e html),
          ''html'' \<mapsto> html, ''source'' \<mapsto> name]]
      else [])"
  by (simp add: article_item_def title_found_def title_text_def split: option.splits)

lemma fetch_articles_from_concat:
  "map source_name_of urls = map Inr names \<Longrightarrow>
   fetch_articles_from e m j urls =
     Inr (concat (map (\<lambda>(i, u, n). source_items e m i u n) (enumerate j (zip urls names))))"
proof (induction urls arbitrary: j names)
  case Nil
  then show ?case by simp
next
  case (Cons u urls)
  then obtain n ns where "names = n # ns" "source_name_of u = Inr n"
    "map source_name_of urls = map Inr ns"
    by (cases names) auto
  with Cons.IH [of ns "Suc j"] show ?case
    by simp
qed

text \<open>
  C7, as the code has it. A candidate page that was fetched (a non-empty text) gives an
  item to \<open>articles\<close>, the list \<open>fetch_articles\<close> returns, if and only if the title test
  passes: the first \<open>h1\<close> of the page, when the page has one, has a non-empty stripped
  text, or the page has no \<open>h1\<close> at all and its \<open>og:title\<close> meta has a non-empty stripped
  \<open>content\<close>. Otherwise the candidate contributes nothing and nothing else is recorded:
  the list of its source is the one of the candidates before and after it, and the list
  returned is these lists one after the other, source by source.
\<close>

theorem untitled_items_dropped:
  "(fetch_with_retry e (ArticlePage j (k + length before)) link 3 = Some html \<and> html \<noteq> [] \<longrightarrow>
      link_items e j name k (before @ link # after) =
        link_items e j name k before
        @ (if title_found (parse_html e html) then
             [[''url'' \<mapsto> link, ''title'' \<mapsto> title_text (parse_html e html),
               ''html'' \<mapsto> html, ''source'' \<mapsto> name]]
           else [])
        @ link_items e j name (Suc (k + length before)) after)
   \<and> title_found sp =
       (case h1 sp of
          Some t \<Rightarrow> strip t \<noteq> []
        | None \<Rightarrow>
            (case og_title sp of
               None \<Rightarrow> False
             | Some attrs \<Rightarrow>
                 (case attrs ''content'' of None \<Rightarrow> False | Some v \<Rightarrow> strip v \<noteq> [])))
   \<and> (map source_name_of urls = map Inr names \<longrightarrow>
        fetch_articles e urls m =
          Inr (concat (map (\<lambda>(i, u, n). link_items e i n 0 (candidate_links e m i u))
                 (enumerate 0 (zip urls names)))))"
proof -
  have "fetch_articles e urls m =
      Inr (concat (map (\<lambda>(i, u, n). link_items e i n 0 (candidate_links e m i u))
             (enumerate 0 (zip urls names))))"
    if "map source_name_of urls = map Inr names"
    using fetch_articles_from_concat [OF that, of e m 0]
    by (simp add: fetch_articles_def source_items_def)
  then show ?thesis
    by (simp add: link_items_append article_item_fetched title_found_def
        extract_title_def strip_def split: option.splits)
qed

text \<open>
  The two story links of the newsroom: the first is kept with its title, the second
  (empty \<open>h1\<close>) is dropped, and \<open>fetch_articles\<close> returns the first alone.
\<close>

theorem untitled_items_dropped_witness:
  "fetch_articles newsroom [''https://www.example.com''] 3 =
     Inr (link_items newsroom 0 ''example.com'' 0
            [''https://www.example.com/article/1'', ''https://www.example.com/story/2''])
   \<and> link_items newsroom 0 ''example.com'' 0
       [''https://www.example.com/article/1'', ''https://www.example.com/story/2''] =
     link_items newsroom 0 ''example.com'' 0 [''https://www.example.com/article/1'']
   \<and> link_items newsroom 0 ''example.com'' 0 [''https://www.example.com/article/1''] =
     [[''url'' \<mapsto> ''https://www.example.com/article/1'', ''title'' \<mapsto> ''Budget vote'',
       ''html'' \<mapsto> ''story'', ''source'' \<mapsto> ''example.com'']]"
proof -
  have a: "fetch_with_retry newsroom
      (ArticlePage 0 (0 + length [''https://www.example.com/article/1'']))
      ''https://www.example.com/story/2'' 3 = Some ''headless''"
    by code_simp
  have b: "fetch_with_retry newsroom (ArticlePage 0 (0 + length ([] :: string list)))
      ''https://www.example.com/article/1'' 3 = Some ''story''"
    by code_simp
  have c: "\<not> title_found (parse_html newsroom ''headless'')"
    "title_found (parse_html newsroom ''story'')"
    "title_text (parse_html newsroom ''story'') = ''Budget vote''"
    by code_simp+
  have d: "map source_name_of [''https://www.example.com''] = map Inr [''example.com'']"
    by code_simp
  have f: "candidate_links newsroom 3 0 ''https://www.example.com'' =
      [''https://www.example.com/article/1'', ''https://www.example.com/story/2'']"
    by code_simp
  show ?thesis
    using untitled_items_dropped
        [where e = newsroom and j = 0 and k = 0 and name = "''example.com''"
          and before = "[''https://www.example.com/article/1'']"
          and link = "''https://www.example.com/story/2''" and html = "''headless''"
          and after = "[]" and urls = "[''https://www.example.com'']"
          and names = "[''example.com'']" and m = 3]
      untitled_items_dropped
        [where e = newsroom and j = 0 and k = 0 and name = "''example.com''"
          and before = "[]" and link = "''https://www.example.com/article/1''"
          and html = "''story''" and after = "[]" and urls = "[]" and names = "[]"]
      a b c d f
    by simp
qed

text \<open>
  The second story of the newsroom has an empty \<open>h1\<close> and the \<open>og:title\<close> \<open>Harbour
  reopens\<close>: a title is discoverable in the specification's sense, the page is fetched,
  and yet the item is dropped and is not among the articles of the fetch stage.
\<close>

theorem og_title_counterexample:
  "fetch_with_retry newsroom (ArticlePage 0 1) ''https://www.example.com/story/2'' 3 =
     Some ''headless''
   \<and> title_discoverable (parse_html newsroom ''headless'')
   \<and> article_item newsroom 0 1 ''example.com'' ''https://www.example.com/story/2'' = []
   \<and> map (\<lambda>a. a ''url'')
        (articles (fetch_articles_async newsroom (initial_state example_sources))) =
       [Some ''https://www.example.com/article/1'']"
  by code_simp

subsection \<open>Summaries\<close>






end
